theory Spec2Isabelle
  imports Complex_Main "HOL-Library.Sublist" "HOL-Library.AList"
begin

unbundle bit_operations_syntax

section \<open>Python values and exceptions\<close>

text \<open>
  The values that travel through keyword arguments and session attributes.  A float is
  kept as the rational it denotes (the only float of the module is the stop-bit count
  \<open>1.5\<close>); \<open>truthy\<close> is Python's truth test, used by \<open>kwargs.get('rtscts', ...)\<close>.
\<close>

datatype pyval = PyNone | PyBool bool | PyInt int | PyFloat rat | PyStr string

fun truthy :: "pyval \<Rightarrow> bool" where
  "truthy PyNone = False"
| "truthy (PyBool b) = b"
| "truthy (PyInt i) = (i \<noteq> 0)"
| "truthy (PyFloat q) = (q \<noteq> 0)"
| "truthy (PyStr s) = (s \<noteq> [])"

text \<open>
  Every exception the modelled code can raise.  The two exceptions the module raises
  itself carry what their message is formatted from: the canonical resource name, and
  the integer value of the offending header byte (\<open>str(header[0])\<close>).  \<open>NameError\<close>
  carries the global name that is not bound; \<open>AttributeError_None\<close> is an attribute
  read on \<open>None\<close>, \<open>AttributeError_visa\<close> the read of the attribute \<open>visa\<close> on a driver
  that has none.
\<close>

datatype error =
    ValueError_unknown_resource string
  | Exception_block_header nat
  | IndexError
  | ValueError_int string
  | KeyError
  | TypeError_ord
  | AttributeError_None
  | AttributeError_visa
  | NameError string
  | InvalidSession
  | VisaIOError

section \<open>The session provider\<close>

text \<open>
  The provider (\<open>visa\<close>) is outside the module; the model fixes the part of its
  behaviour the module relies on.  An opened resource carries its session handle
  (\<open>None\<close> once closed), the bursts of bytes its instrument is going to deliver, the
  attribute writes it received (in order), the warnings currently ignored, and a log of
  the reads issued: each entry is the count requested and the warnings ignored at that
  moment.

  A read of \<open>count\<close> bytes takes at most \<open>count\<close> bytes from the current burst; the
  end of a burst (a timeout or a terminator) ends the read early, and a read with no
  burst left times out with no bytes.  A read on a closed session raises.
\<close>

definition VI_SUCCESS_MAX_CNT :: int where
  "VI_SUCCESS_MAX_CNT = 1073676294"

record resource =
  session :: "nat option"
  pending :: "string list"
  reads :: "(int \<times> int list) list"
  ignored :: "int list"
  attribute_writes :: "(string \<times> pyval) list"

fun deliver :: "nat \<Rightarrow> string list \<Rightarrow> string \<times> string list" where
  "deliver n [] = ([], [])"
| "deliver n (b # bs) =
     (if length b \<le> n then (b, bs) else (take n b, drop n b # bs))"

definition read_raw :: "int \<Rightarrow> resource \<Rightarrow> (error + string) \<times> resource" where
  "read_raw count r =
     (if session r = None then (Inl InvalidSession, r)
      else (case deliver (nat count) (pending r) of
              (data, rest) \<Rightarrow>
                (Inr data, r\<lparr>pending := rest, reads := reads r @ [(count, ignored r)]\<rparr>)))"

definition set_visa_attribute :: "string \<Rightarrow> pyval \<Rightarrow> resource \<Rightarrow> resource" where
  "set_visa_attribute key v r = r\<lparr>attribute_writes := attribute_writes r @ [(key, v)]\<rparr>"

definition close :: "resource \<Rightarrow> (error + unit) \<times> resource" where
  "close r =
     (if session r = None then (Inl InvalidSession, r)
      else (Inr (), r\<lparr>session := None\<rparr>))"

text \<open>
  \<open>ignore_warning\<close> is a context manager: the warning is ignored from entry to exit.
  The model undoes the entry at every exit; what the provider does when the block is
  left by an exception is its own affair, and nothing below is stated about the
  ignored warnings after an exception.
\<close>

definition ignore_warning_enter :: "int \<Rightarrow> resource \<Rightarrow> resource" where
  "ignore_warning_enter w r = r\<lparr>ignored := List.insert w (ignored r)\<rparr>"

definition ignore_warning_exit :: "int \<Rightarrow> resource \<Rightarrow> resource" where
  "ignore_warning_exit w r = r\<lparr>ignored := removeAll w (ignored r)\<rparr>"

text \<open>
  The resource manager knows the canonical name of each resource it can resolve and
  the bursts each instrument will send; it logs the resources it opened.
\<close>

record manager =
  library_path :: pyval
  canonical :: "(string \<times> string) list"
  instruments :: "(string \<times> string list) list"
  opened :: "string list"

definition resource_info :: "manager \<Rightarrow> string \<Rightarrow> error + string" where
  "resource_info m name =
     (case map_of (canonical m) name of
        None \<Rightarrow> Inl VisaIOError
      | Some full \<Rightarrow> Inr full)"

definition new_session :: "nat \<Rightarrow> string list \<Rightarrow> resource" where
  "new_session h bursts =
     \<lparr>session = Some h, pending = bursts, reads = [], ignored = [], attribute_writes = []\<rparr>"

definition open_resource :: "manager \<Rightarrow> string \<Rightarrow> (error + resource) \<times> manager" where
  "open_resource m name =
     (case map_of (instruments m) name of
        None \<Rightarrow> (Inl VisaIOError, m)
      | Some bursts \<Rightarrow>
          (Inr (new_session (Suc (length (opened m))) bursts),
           m\<lparr>opened := opened m @ [name]\<rparr>))"

section \<open>MessageVisaDriver\<close>

datatype transport = GPIB | Serial | TCP | USB

datatype log_event =
    LogCreated string
  | LogOpening string
  | LogSession string "nat option"
  | LogAlreadyOpen string
  | LogClosing string

text \<open>
  A driver instance: the class it was built as, the arguments its constructor was
  given, and the instance attributes \<open>_init_attributes\<close>, \<open>resource_manager\<close>,
  \<open>resource\<close> (\<open>None\<close> until \<open>initialize\<close>) and \<open>resource_name\<close>; \<open>log\<close> collects
  the \<open>log_debug\<close> messages.
\<close>

record driver =
  variant :: transport
  ctor_args :: "pyval list"
  ctor_kwargs :: "(string \<times> pyval) list"
  init_attributes :: "(string \<times> pyval) list"
  resource_manager :: manager
  resource :: "resource option"
  resource_name :: string
  log :: "log_event list"

definition RECV_BUFFER_SIZE :: int where
  "RECV_BUFFER_SIZE = 256"

definition kwargs_get :: "(string \<times> pyval) list \<Rightarrow> string \<Rightarrow> pyval \<Rightarrow> pyval" where
  "kwargs_get kwargs key dflt = (case map_of kwargs key of None \<Rightarrow> dflt | Some v \<Rightarrow> v)"

text \<open>
  \<open>MessageVisaDriver.__init__\<close>; \<open>lib\<close> is the provider's state that
  \<open>visa.ResourceManager\<close> hands out, \<open>cls\<close> the class being instantiated.  The
  constructors of the base classes \<open>TextualMixin\<close> and \<open>Driver\<close>, which live in other
  modules, are not followed.
\<close>

definition ResourceManager :: "manager \<Rightarrow> pyval \<Rightarrow> manager" where
  "ResourceManager lib path = lib\<lparr>library_path := path\<rparr>"

definition MessageVisaDriver_init ::
    "manager \<Rightarrow> transport \<Rightarrow> string \<Rightarrow> pyval list \<Rightarrow> (string \<times> pyval) list \<Rightarrow> driver" where
  "MessageVisaDriver_init lib cls name args kwargs =
     \<lparr>variant = cls, ctor_args = args, ctor_kwargs = kwargs,
      init_attributes = [],
      resource_manager = ResourceManager lib (kwargs_get kwargs ''library_path'' (PyStr [])),
      resource = None,
      resource_name = name,
      log = [LogCreated name]\<rparr>"

subsection \<open>raw_recv\<close>

text \<open>
  The drain loop of \<open>raw_recv\<close>, with the buffer size the class defines
  (\<open>RECV_BUFFER_SIZE = 1<<8\<close>): read \<open>RECV_BUFFER_SIZE\<close> bytes at a time, collecting
  the buffers, until a read comes back short.  Every read that is not short takes 256
  bytes out of the finite list of pending bursts, which is what ends the recursion.
\<close>

function drain :: "string list \<Rightarrow> resource \<Rightarrow> (error + string) \<times> resource" where
  "drain buffers r =
     (case read_raw RECV_BUFFER_SIZE r of
        (Inl e, r') \<Rightarrow> (Inl e, r')
      | (Inr data, r') \<Rightarrow>
          (if int (length data) < RECV_BUFFER_SIZE then (Inr (concat (buffers @ [data])), r')
           else drain (buffers @ [data]) r'))"
  by pat_completeness auto
termination
proof (relation "measure (\<lambda>(buffers, r). length (concat (pending r)))")
  show "wf (measure (\<lambda>(buffers, r). length (concat (pending r))))"
    by simp
next
  fix buffers :: "string list" and r x1 r' data
  assume rd: "(x1, r') = read_raw RECV_BUFFER_SIZE r" "x1 = Inr data"
    and full: "\<not> int (length data) < RECV_BUFFER_SIZE"
  have "length (concat (pending r')) + length data = length (concat (pending r))"
    using rd by (cases "pending r") (auto simp: read_raw_def split: if_splits)
  moreover have "0 < length data"
    using full by (auto simp: RECV_BUFFER_SIZE_def)
  ultimately show "((buffers @ [data], r'), (buffers, r))
      \<in> measure (\<lambda>(buffers, r). length (concat (pending r)))"
    by (cases data) auto
qed

declare drain.simps [simp del]

text \<open>
  \<open>MessageVisaDriver.raw_recv(size)\<close>; \<open>None\<close> stands for a size of \<open>None\<close>.  A read
  with a count below 1 yields no bytes.  Each operation on a driver
  returns its result, or the exception raised, together with the driver as the call
  left it.
\<close>

definition raw_recv :: "int option \<Rightarrow> driver \<Rightarrow> (error + string) \<times> driver" where
  "raw_recv sz d =
     (case resource d of
        None \<Rightarrow> (Inl AttributeError_None, d)
      | Some r \<Rightarrow>
          (case (case sz of
                   None \<Rightarrow> drain [] r
                 | Some n \<Rightarrow> if n = 0 \<or> n = - 1 then drain [] r else read_raw n r) of
             (res, r') \<Rightarrow> (res, d\<lparr>resource := Some r'\<rparr>)))"

text \<open>
  \<open>USBVisaDriver.raw_recv\<close>: one read of one byte, whatever size is asked for.
\<close>

definition USBVisaDriver_raw_recv :: "int option \<Rightarrow> driver \<Rightarrow> (error + string) \<times> driver" where
  "USBVisaDriver_raw_recv sz d =
     (case resource d of
        None \<Rightarrow> (Inl AttributeError_None, d)
      | Some r \<Rightarrow> (case read_raw 1 r of (res, r') \<Rightarrow> (res, d\<lparr>resource := Some r'\<rparr>)))"

text \<open>
  \<open>SerialVisaDriver.raw_recv\<close> reaches its session through \<open>self.visa\<close> and \<open>self.vi\<close>
  only, and no constructor of the module assigns either attribute.  On the path of the
  size \<open>-1\<close> the first thing evaluated is \<open>self.visa.get_attribute\<close>, on every other
  path \<open>self.visa.read\<close>: each call ends in \<open>AttributeError\<close> before the session is
  touched.
\<close>

definition SerialVisaDriver_raw_recv ::
    "int option \<Rightarrow> driver \<Rightarrow> (error + string) \<times> driver" where
  "SerialVisaDriver_raw_recv sz d = (Inl AttributeError_visa, d)"

text \<open>
  \<open>self.raw_recv\<close>: the method of the instance's class.  The GPIB and TCP drivers
  inherit \<open>raw_recv\<close> from \<open>MessageVisaDriver\<close>.
\<close>

definition self_raw_recv :: "int option \<Rightarrow> driver \<Rightarrow> (error + string) \<times> driver" where
  "self_raw_recv sz d =
     (case variant d of
        Serial \<Rightarrow> SerialVisaDriver_raw_recv sz d
      | USB \<Rightarrow> USBVisaDriver_raw_recv sz d
      | GPIB \<Rightarrow> raw_recv sz d
      | TCP \<Rightarrow> raw_recv sz d)"

subsection \<open>initialize, finalize, is_open\<close>

definition is_open :: "driver \<Rightarrow> bool" where
  "is_open d = (case resource d of None \<Rightarrow> False | Some r \<Rightarrow> session r \<noteq> None)"

definition initialize :: "driver \<Rightarrow> (error + unit) \<times> driver" where
  "initialize d =
     (if \<not> is_open d then
        (let d1 = d\<lparr>log := log d @ [LogOpening (resource_name d)]\<rparr> in
         case open_resource (resource_manager d1) (resource_name d1) of
           (Inl e, m) \<Rightarrow> (Inl e, d1\<lparr>resource_manager := m\<rparr>)
         | (Inr r, m) \<Rightarrow>
             (let r' = fold (\<lambda>(key, v). set_visa_attribute key v) (init_attributes d1) r
              in (Inr (), d1\<lparr>resource_manager := m, resource := Some r',
                             log := log d1 @ [LogSession (resource_name d1) (session r')]\<rparr>)))
      else (Inr (), d\<lparr>log := log d @ [LogAlreadyOpen (resource_name d)]\<rparr>))"

definition finalize :: "driver \<Rightarrow> (error + unit) \<times> driver" where
  "finalize d =
     (let d1 = d\<lparr>log := log d @ [LogClosing (resource_name d)]\<rparr> in
      case resource d1 of
        None \<Rightarrow> (Inl AttributeError_None, d1)
      | Some r \<Rightarrow> (case close r of (res, r') \<Rightarrow> (res, d1\<lparr>resource := Some r'\<rparr>)))"

subsection \<open>read_block\<close>

text \<open>
  \<open>int(b)\<close> on a byte string, as CPython 3.6 and later read it in base 10: optional
  surrounding ASCII whitespace, an optional sign, then decimal digits, where single
  underscores may stand between digits.  Anything else is a \<open>ValueError\<close> (\<open>None\<close>
  here).  The interpreter's optional limit on the number of digits is not modelled.
\<close>

definition is_space :: "char \<Rightarrow> bool" where
  "is_space c = (of_char c \<in> {9, 10, 11, 12, 13, 32 :: nat})"

definition is_digit :: "char \<Rightarrow> bool" where
  "is_digit c = (48 \<le> (of_char c :: nat) \<and> (of_char c :: nat) \<le> 57)"

definition digit_val :: "char \<Rightarrow> int" where
  "digit_val c = int (of_char c) - 48"

fun int_digits :: "bool \<Rightarrow> int \<Rightarrow> string \<Rightarrow> int option" where
  "int_digits after_digit acc [] = (if after_digit then Some acc else None)"
| "int_digits after_digit acc (c # cs) =
     (if is_digit c then int_digits True (10 * acc + digit_val c) cs
      else if c = CHR ''_'' \<and> after_digit then int_digits False acc cs
      else None)"

definition py_int :: "string \<Rightarrow> int option" where
  "py_int b =
     (case rev (dropWhile is_space (rev (dropWhile is_space b))) of
        [] \<Rightarrow> None
      | c # cs \<Rightarrow>
          if c = CHR ''+'' then int_digits False 0 cs
          else if c = CHR ''-'' then map_option uminus (int_digits False 0 cs)
          else int_digits False 0 (c # cs))"

text \<open>
  The first three reads of \<open>read_block\<close> (header byte, digit count, length field),
  giving the declared length; then the body of the \<open>with\<close> block, which ends with the
  payload read; then \<open>read_block\<close> itself, the body run between the entry and the
  exit of \<open>ignore_warning(VI_SUCCESS_MAX_CNT)\<close>.
\<close>

definition read_block_length :: "driver \<Rightarrow> (error + int) \<times> driver" where
  "read_block_length d =
     (case self_raw_recv (Some 1) d of
        (Inl e, d1) \<Rightarrow> (Inl e, d1)
      | (Inr header, d1) \<Rightarrow>
          if header \<noteq> ''#'' then
            (case header of
               [] \<Rightarrow> (Inl IndexError, d1)
             | b # _ \<Rightarrow> (Inl (Exception_block_header (of_char b)), d1))
          else
            (case self_raw_recv (Some 1) d1 of
               (Inl e, d2) \<Rightarrow> (Inl e, d2)
             | (Inr digit, d2) \<Rightarrow>
                 (case py_int digit of
                    None \<Rightarrow> (Inl (ValueError_int digit), d2)
                  | Some nlength \<Rightarrow>
                      (case self_raw_recv (Some nlength) d2 of
                         (Inl e, d3) \<Rightarrow> (Inl e, d3)
                       | (Inr digits, d3) \<Rightarrow>
                           (case py_int digits of
                              None \<Rightarrow> (Inl (ValueError_int digits), d3)
                            | Some len \<Rightarrow> (Inr len, d3))))))"

definition read_block_body :: "driver \<Rightarrow> (error + string) \<times> driver" where
  "read_block_body d =
     (case read_block_length d of
        (Inl e, d3) \<Rightarrow> (Inl e, d3)
      | (Inr len, d3) \<Rightarrow> self_raw_recv (Some len) d3)"

definition ignoring :: "int \<Rightarrow> driver \<Rightarrow> driver" where
  "ignoring w d = d\<lparr>resource := map_option (ignore_warning_enter w) (resource d)\<rparr>"

definition not_ignoring :: "int \<Rightarrow> driver \<Rightarrow> driver" where
  "not_ignoring w d = d\<lparr>resource := map_option (ignore_warning_exit w) (resource d)\<rparr>"

definition read_block :: "driver \<Rightarrow> (error + string) \<times> driver" where
  "read_block d =
     (case resource d of
        None \<Rightarrow> (Inl AttributeError_None, d)
      | Some r \<Rightarrow>
          (case read_block_body (ignoring VI_SUCCESS_MAX_CNT d) of
             (res, d') \<Rightarrow> (res, not_ignoring VI_SUCCESS_MAX_CNT d')))"

section \<open>SerialVisaDriver\<close>

text \<open>
  The constructor reads the global names \<open>Constants\<close>, \<open>BYTESIZE\<close>, \<open>PARITY\<close> and
  \<open>STOPBITS\<close>.  The module itself binds none of them: the three tables are written
  out only inside the string literal at the top of the file, and \<open>Constants\<close> is not
  imported.  \<open>module_globals\<close> is the part of the module's namespace the constructor
  looks at, each name bound or not; \<open>shipped_module\<close> is the namespace the module has
  when it is loaded, and reading a name that is not bound raises \<open>NameError\<close>.  A name
  can only come to be bound from outside the module (by assigning to the module's
  attributes): \<open>patched_module\<close> is the namespace with the four names bound to what the
  string literal writes (\<open>documented_tables\<close>), and \<open>visa_constants\<close> are the values the
  VISA standard gives the constants.
\<close>

record constants =
  ASRL_PAR_NONE :: int
  ASRL_PAR_EVEN :: int
  ASRL_PAR_ODD :: int
  ASRL_PAR_MARK :: int
  ASRL_PAR_SPACE :: int
  ASRL_STOP_ONE :: int
  ASRL_STOP_ONE5 :: int
  ASRL_STOP_TWO :: int
  ASRL_FLOW_NONE :: int
  ASRL_FLOW_RTS_CTS :: int
  ASRL_FLOW_DTR_DSR :: int
  ASRL_FLOW_XON_XOFF :: int
  ASRL_END_TERMCHAR :: int
  ASRL_END_NONE :: int

record tables =
  BYTESIZE_table :: "(pyval \<times> int) list"
  PARITY_table :: "(pyval \<times> int) list"
  STOPBITS_table :: "(pyval \<times> int) list"

definition documented_tables :: "constants \<Rightarrow> tables" where
  "documented_tables C =
     \<lparr>BYTESIZE_table = [(PyInt 5, 5), (PyInt 6, 6), (PyInt 7, 7), (PyInt 8, 8)],
      PARITY_table = [(PyStr ''none'', ASRL_PAR_NONE C), (PyStr ''even'', ASRL_PAR_EVEN C),
                      (PyStr ''odd'', ASRL_PAR_ODD C), (PyStr ''mark'', ASRL_PAR_MARK C),
                      (PyStr ''space'', ASRL_PAR_SPACE C)],
      STOPBITS_table = [(PyInt 1, ASRL_STOP_ONE C), (PyFloat (3 / 2), ASRL_STOP_ONE5 C),
                        (PyInt 2, ASRL_STOP_TWO C)]\<rparr>"

definition visa_constants :: constants where
  "visa_constants =
     \<lparr>ASRL_PAR_NONE = 0, ASRL_PAR_EVEN = 2, ASRL_PAR_ODD = 1, ASRL_PAR_MARK = 3,
      ASRL_PAR_SPACE = 4, ASRL_STOP_ONE = 10, ASRL_STOP_ONE5 = 15, ASRL_STOP_TWO = 20,
      ASRL_FLOW_NONE = 0, ASRL_FLOW_RTS_CTS = 2, ASRL_FLOW_DTR_DSR = 4,
      ASRL_FLOW_XON_XOFF = 1, ASRL_END_TERMCHAR = 2, ASRL_END_NONE = 0\<rparr>"

record module_globals =
  Constants_global :: "constants option"
  BYTESIZE_global :: "(pyval \<times> int) list option"
  PARITY_global :: "(pyval \<times> int) list option"
  STOPBITS_global :: "(pyval \<times> int) list option"

definition shipped_module :: module_globals where
  "shipped_module =
     \<lparr>Constants_global = None, BYTESIZE_global = None, PARITY_global = None,
      STOPBITS_global = None\<rparr>"

definition patched_module :: "constants \<Rightarrow> module_globals" where
  "patched_module C =
     \<lparr>Constants_global = Some C,
      BYTESIZE_global = Some (BYTESIZE_table (documented_tables C)),
      PARITY_global = Some (PARITY_table (documented_tables C)),
      STOPBITS_global = Some (STOPBITS_table (documented_tables C))\<rparr>"

definition global_name :: "'a option \<Rightarrow> string \<Rightarrow> error + 'a" where
  "global_name binding name =
     (case binding of None \<Rightarrow> Inl (NameError name) | Some v \<Rightarrow> Inr v)"

text \<open>
  Subscription \<open>table[key]\<close>: the entry whose key equals \<open>key\<close> as Python compares
  dictionary keys (numbers by value, whatever their type), or \<open>KeyError\<close>.
\<close>

fun num_of :: "pyval \<Rightarrow> rat option" where
  "num_of (PyBool b) = Some (if b then 1 else 0)"
| "num_of (PyInt i) = Some (of_int i)"
| "num_of (PyFloat q) = Some q"
| "num_of PyNone = None"
| "num_of (PyStr s) = None"

definition py_eq :: "pyval \<Rightarrow> pyval \<Rightarrow> bool" where
  "py_eq a b =
     (case (num_of a, num_of b) of
        (Some x, Some y) \<Rightarrow> x = y
      | (None, None) \<Rightarrow> a = b
      | _ \<Rightarrow> False)"

definition getitem :: "(pyval \<times> int) list \<Rightarrow> pyval \<Rightarrow> error + int" where
  "getitem table key =
     (case find (\<lambda>(k, v). py_eq k key) table of
        None \<Rightarrow> Inl KeyError
      | Some (k, v) \<Rightarrow> Inr v)"

text \<open>
  The class attributes the constructor reads through \<open>self\<close>; a subclass may override
  them.  \<open>SerialVisaDriver_class\<close> holds the values of \<open>SerialVisaDriver\<close> itself
  (\<open>RECV_TERMINATION\<close> is inherited from \<open>MessageVisaDriver\<close>).
\<close>

record serial_class =
  BAUDRATE :: pyval
  BYTESIZE :: pyval
  PARITY :: pyval
  STOPBITS :: pyval
  RTSCTS :: bool
  DSRDTR :: bool
  XONXOFF :: bool
  RECV_TERMINATION :: string
  RECV_CHUNK :: int

definition SerialVisaDriver_class :: serial_class where
  "SerialVisaDriver_class =
     \<lparr>BAUDRATE = PyInt 9600, BYTESIZE = PyInt 8, PARITY = PyStr ''none'', STOPBITS = PyInt 1,
      RTSCTS = False, DSRDTR = False, XONXOFF = False,
      RECV_TERMINATION = [CHR 0x0A], RECV_CHUNK = - 1\<rparr>"

definition ord :: "string \<Rightarrow> error + int" where
  "ord s = (case s of [c] \<Rightarrow> Inr (int (of_char c)) | _ \<Rightarrow> Inl TypeError_ord)"

definition flow_control :: "constants \<Rightarrow> serial_class \<Rightarrow> (string \<times> pyval) list \<Rightarrow> int" where
  "flow_control C cls kwargs =
     (let flow = ASRL_FLOW_NONE C;
          flow = (if truthy (kwargs_get kwargs ''rtscts'' (PyBool (RTSCTS cls)))
                  then flow OR ASRL_FLOW_RTS_CTS C else flow);
          flow = (if truthy (kwargs_get kwargs ''dsrdtr'' (PyBool (DSRDTR cls)))
                  then flow OR ASRL_FLOW_DTR_DSR C else flow);
          flow = (if truthy (kwargs_get kwargs ''xonxoff'' (PyBool (XONXOFF cls)))
                  then flow OR ASRL_FLOW_XON_XOFF C else flow)
      in flow)"

text \<open>
  \<open>SerialVisaDriver.__init__\<close>, statement by statement.  \<open>kw\<close> is the dictionary the
  constructor fills, key by key in the order of the source; in each of the three table
  lookups the table's name is read first, and the key is taken from \<open>kw\<close> itself, as
  the source does.  \<open>Constants\<close> is first read when the flow-control mask is started.
\<close>

definition termination_attributes ::
    "constants \<Rightarrow> serial_class \<Rightarrow> (string \<times> pyval) list \<Rightarrow> error + (string \<times> pyval) list" where
  "termination_attributes C cls kw =
     (if RECV_TERMINATION cls \<noteq> [] \<and> RECV_CHUNK cls > 1 then
        (case ord (RECV_TERMINATION cls) of
           Inl e \<Rightarrow> Inl e
         | Inr code \<Rightarrow>
             Inr (AList.update ''ASRL_END_IN'' (PyInt (ASRL_END_TERMCHAR C))
                   (AList.update ''TERMCHAR'' (PyInt code) kw)))
      else Inr (AList.update ''ASRL_END_IN'' (PyInt (ASRL_END_NONE C)) kw))"

definition SerialVisaDriver_init ::
    "module_globals \<Rightarrow> serial_class \<Rightarrow> manager \<Rightarrow> string \<Rightarrow> pyval list \<Rightarrow>
     (string \<times> pyval) list \<Rightarrow> error + driver" where
  "SerialVisaDriver_init G cls lib name args kwargs =
     (let d = MessageVisaDriver_init lib Serial name args kwargs;
          kw = [];
          kw = AList.update ''ASRL_BAUD'' (kwargs_get kwargs ''baudrate'' (BAUDRATE cls)) kw
      in case global_name (BYTESIZE_global G) ''BYTESIZE'' of
           Inl e \<Rightarrow> Inl e
         | Inr bytesize_table \<Rightarrow>
      (case getitem bytesize_table (kwargs_get kw ''bytesize'' (BYTESIZE cls)) of
           Inl e \<Rightarrow> Inl e
         | Inr bits \<Rightarrow>
      (let kw = AList.update ''ASRL_DATA_BITS'' (PyInt bits) kw
       in case global_name (PARITY_global G) ''PARITY'' of
            Inl e \<Rightarrow> Inl e
          | Inr parity_table \<Rightarrow>
      (case getitem parity_table (kwargs_get kw ''parity'' (PARITY cls)) of
            Inl e \<Rightarrow> Inl e
          | Inr par \<Rightarrow>
      (let kw = AList.update ''ASRL_PARITY'' (PyInt par) kw
       in case global_name (STOPBITS_global G) ''STOPBITS'' of
            Inl e \<Rightarrow> Inl e
          | Inr stopbits_table \<Rightarrow>
      (case getitem stopbits_table (kwargs_get kw ''stopbits'' (STOPBITS cls)) of
            Inl e \<Rightarrow> Inl e
          | Inr stop \<Rightarrow>
      (let kw = AList.update ''ASRL_STOP_BITS'' (PyInt stop) kw
       in case global_name (Constants_global G) ''Constants'' of
            Inl e \<Rightarrow> Inl e
          | Inr C \<Rightarrow>
      (let kw = AList.update ''ASRL_FLOW_CNTRL'' (PyInt (flow_control C cls kwargs)) kw
       in case termination_attributes C cls kw of
            Inl e \<Rightarrow> Inl e
          | Inr kw \<Rightarrow>
              Inr (d\<lparr>init_attributes :=
                       fold (\<lambda>(k, v). AList.update k v) kw (init_attributes d)\<rparr>)))))))))"

section \<open>VisaDriver: dispatch on the resource name\<close>

definition GPIBVisaDriver ::
    "manager \<Rightarrow> string \<Rightarrow> pyval list \<Rightarrow> (string \<times> pyval) list \<Rightarrow> driver" where
  "GPIBVisaDriver lib name args kwargs = MessageVisaDriver_init lib GPIB name args kwargs"

definition TCPVisaDriver ::
    "manager \<Rightarrow> string \<Rightarrow> pyval list \<Rightarrow> (string \<times> pyval) list \<Rightarrow> driver" where
  "TCPVisaDriver lib name args kwargs = MessageVisaDriver_init lib TCP name args kwargs"

definition USBVisaDriver ::
    "manager \<Rightarrow> string \<Rightarrow> pyval list \<Rightarrow> (string \<times> pyval) list \<Rightarrow> driver" where
  "USBVisaDriver lib name args kwargs = MessageVisaDriver_init lib USB name args kwargs"

definition SerialVisaDriver ::
    "module_globals \<Rightarrow> manager \<Rightarrow> string \<Rightarrow> pyval list \<Rightarrow> (string \<times> pyval) list \<Rightarrow>
     error + driver" where
  "SerialVisaDriver G lib name args kwargs =
     SerialVisaDriver_init G SerialVisaDriver_class lib name args kwargs"

definition VisaDriver_new ::
    "module_globals \<Rightarrow> manager \<Rightarrow> string \<Rightarrow> pyval list \<Rightarrow> (string \<times> pyval) list \<Rightarrow>
     error + driver" where
  "VisaDriver_new G lib rname args kwargs =
     (let path = kwargs_get kwargs ''library_path'' PyNone;
          mgr = ResourceManager lib path
      in case resource_info mgr rname of
           Inl e \<Rightarrow> Inl e
         | Inr name \<Rightarrow>
             if prefix ''GPIB'' name then Inr (GPIBVisaDriver lib rname args kwargs)
             else if prefix ''ASRL'' name then SerialVisaDriver G lib rname args kwargs
             else if prefix ''TCPIP'' name then Inr (TCPVisaDriver lib rname args kwargs)
             else if prefix ''USB'' name then Inr (USBVisaDriver lib rname args kwargs)
             else Inl (ValueError_unknown_resource name))"

section \<open>A test bench\<close>

text \<open>
  A provider that resolves five resource names and has two instruments attached, each
  of which will deliver the given bursts; \<open>scope bursts\<close> is the GPIB driver of the
  first and \<open>meter bursts\<close> the USB driver of the second, after \<open>initialize\<close>.
\<close>

definition bench :: "string list \<Rightarrow> manager" where
  "bench bursts =
     \<lparr>library_path = PyNone,
      canonical = [(''scope'', ''GPIB0::7::INSTR''), (''COM1'', ''ASRL1::INSTR''),
                   (''lan'', ''TCPIP0::10.0.0.2::INSTR''), (''meter'', ''USB0::1::2::INSTR''),
                   (''card'', ''PXI0::1::INSTR'')],
      instruments = [(''scope'', bursts), (''meter'', bursts)],
      opened = []\<rparr>"

definition scope :: "string list \<Rightarrow> driver" where
  "scope bursts = snd (initialize (GPIBVisaDriver (bench bursts) ''scope'' [] []))"

definition meter :: "string list \<Rightarrow> driver" where
  "meter bursts = snd (initialize (USBVisaDriver (bench bursts) ''meter'' [] []))"

section \<open>Notions used to state the properties\<close>

text \<open>
  \<open>logged r counts r'\<close>: from \<open>r\<close> to \<open>r'\<close> the session was asked for reads of exactly
  the given counts, in order, each logged with the warnings ignored in \<open>r\<close>; the
  session handle and the ignored warnings are those of \<open>r\<close>.  \<open>decimal\<close> is the number a
  string of ASCII digits denotes.
\<close>

definition logged :: "resource \<Rightarrow> int list \<Rightarrow> resource \<Rightarrow> bool" where
  "logged r counts r' =
     (ignored r' = ignored r \<and> session r' = session r
      \<and> reads r' = reads r @ map (\<lambda>c. (c, ignored r)) counts)"

definition decimal :: "string \<Rightarrow> int" where
  "decimal ds = foldl (\<lambda>a c. 10 * a + digit_val c) 0 ds"

section \<open>Facts about single reads\<close>

lemma scope_resource: "resource (scope bursts) = Some (new_session 1 bursts)"
  by (simp add: scope_def initialize_def is_open_def GPIBVisaDriver_def
      MessageVisaDriver_init_def open_resource_def bench_def ResourceManager_def Let_def)

lemma raw_recv_one:
  "resource d = Some r \<Longrightarrow> n \<noteq> 0 \<Longrightarrow> n \<noteq> - 1 \<Longrightarrow>
   raw_recv (Some n) d = (fst (read_raw n r), d\<lparr>resource := Some (snd (read_raw n r))\<rparr>)"
  by (simp add: raw_recv_def split: prod.splits)

lemma scope_variant: "variant (scope bursts) = GPIB"
  by (simp add: scope_def initialize_def is_open_def GPIBVisaDriver_def
      MessageVisaDriver_init_def open_resource_def bench_def ResourceManager_def Let_def)

lemma meter_resource: "resource (meter bursts) = Some (new_session 1 bursts)"
  by (simp add: meter_def initialize_def is_open_def USBVisaDriver_def
      MessageVisaDriver_init_def open_resource_def bench_def ResourceManager_def Let_def)


lemma self_raw_recv_inherited:
  "variant d = GPIB \<or> variant d = TCP \<Longrightarrow> self_raw_recv sz d = raw_recv sz d"
  by (auto simp: self_raw_recv_def)

lemma self_raw_recv_one:
  "resource d = Some r \<Longrightarrow> variant d \<noteq> Serial \<Longrightarrow>
   self_raw_recv (Some 1) d = (fst (read_raw 1 r), d\<lparr>resource := Some (snd (read_raw 1 r))\<rparr>)"
  by (cases "variant d")
    (simp_all add: self_raw_recv_def raw_recv_one USBVisaDriver_raw_recv_def split: prod.splits)

lemma read_raw_ignoring:
  "read_raw n (ignore_warning_enter w r) =
     (fst (read_raw n r),
      (snd (read_raw n r))\<lparr>ignored := List.insert w (ignored r),
         reads := (if session r = None then reads r
                   else reads r @ [(n, List.insert w (ignored r))])\<rparr>)"
  by (simp add: read_raw_def ignore_warning_enter_def split: prod.splits)

section \<open>read_block: the header byte\<close>

text \<open>
  Claim C10.  When the first read of \<open>read_block\<close>, the read of the one header byte,
  comes back empty, the comparison with \<open>b'#'\<close> fails and the error branch evaluates
  \<open>header[0]\<close> on the empty byte string: the call ends in \<open>IndexError\<close>, not in the
  exception that reports an unexpected header byte.  (A serial driver is left out:
  its \<open>raw_recv\<close> raises \<open>AttributeError\<close> before any read is made.)
\<close>

theorem read_block_empty_header:
  assumes "variant d \<noteq> Serial" and "resource d = Some r" and "fst (read_raw 1 r) = Inr []"
  shows "fst (read_block d) = Inl IndexError"
  using assms
  by (simp add: read_block_def read_block_body_def read_block_length_def ignoring_def
      self_raw_recv_one read_raw_ignoring split: prod.splits)

theorem read_block_empty_header_witness:
  "variant (scope []) \<noteq> Serial
   \<and> resource (scope []) = Some (new_session 1 [])
   \<and> fst (read_raw 1 (new_session 1 [])) = Inr []
   \<and> fst (read_block (scope [])) = Inl IndexError"
proof -
  have v: "variant (scope []) \<noteq> Serial"
    by (simp add: scope_variant)
  have a: "resource (scope []) = Some (new_session 1 [])"
    by (rule scope_resource)
  have b: "fst (read_raw 1 (new_session 1 [])) = Inr []"
    by (simp add: read_raw_def new_session_def)
  show ?thesis
    using v a b read_block_empty_header [OF v a b] by simp
qed

text \<open>
  Claim C4.  When the first byte the session delivers is not \<open>#\<close>, \<open>read_block\<close> raises
  the exception that reports the unexpected block header, carrying the value of that
  byte; the session has then been asked for exactly one read, of one byte, and exactly
  that byte is gone from the stream.  (A serial driver is left out: its \<open>raw_recv\<close>
  raises \<open>AttributeError\<close> before any read is made.)
\<close>

theorem read_block_unexpected_header:
  assumes "variant d \<noteq> Serial" and "resource d = Some r" and "session r \<noteq> None"
    and "pending r = (b # bs) # rest" and "b \<noteq> CHR ''#''"
  shows "\<exists>r'. fst (read_block d) = Inl (Exception_block_header (of_char b))
            \<and> resource (snd (read_block d)) = Some r'
            \<and> map fst (reads r') = map fst (reads r) @ [1]
            \<and> concat (pending r) = b # concat (pending r')"
proof -
  have rd: "read_raw 1 r =
      (Inr [b], r\<lparr>pending := (if bs = [] then rest else bs # rest),
                   reads := reads r @ [(1, ignored r)]\<rparr>)"
    using assms(3,4) by (cases bs) (auto simp: read_raw_def)
  show ?thesis
    using assms(1,2,3,5) rd assms(4)
    by (simp add: read_block_def read_block_body_def read_block_length_def ignoring_def
        not_ignoring_def self_raw_recv_one read_raw_ignoring ignore_warning_exit_def
        split: prod.splits)
qed

theorem read_block_unexpected_header_witness:
  "variant (scope [''A205hello'']) \<noteq> Serial
   \<and> resource (scope [''A205hello'']) = Some (new_session 1 [''A205hello''])
   \<and> session (new_session 1 [''A205hello'']) \<noteq> None
   \<and> pending (new_session 1 [''A205hello'']) = (CHR ''A'' # ''205hello'') # []
   \<and> CHR ''A'' \<noteq> CHR ''#''
   \<and> (\<exists>r'. fst (read_block (scope [''A205hello''])) = Inl (Exception_block_header 65)
          \<and> resource (snd (read_block (scope [''A205hello'']))) = Some r'
          \<and> map fst (reads r') = [1]
          \<and> concat (pending r') = ''205hello'')"
proof -
  have a: "resource (scope [''A205hello'']) = Some (new_session 1 [''A205hello''])"
    by (rule scope_resource)
  have b: "session (new_session 1 [''A205hello'']) \<noteq> None"
    by (simp add: new_session_def)
  have c: "pending (new_session 1 [''A205hello'']) = (CHR ''A'' # ''205hello'') # []"
    by (simp add: new_session_def)
  have e: "CHR ''A'' \<noteq> CHR ''#''" by simp
  have v: "variant (scope [''A205hello'']) \<noteq> Serial"
    by (simp add: scope_variant)
  show ?thesis
    using v a b c e read_block_unexpected_header [OF v a b c e]
    by (auto simp: new_session_def)
qed

section \<open>raw_recv in drain mode\<close>

lemma read_raw_full:
  assumes "session r \<noteq> None" and "pending r = b # rest" and "length b \<le> nat n"
  shows "read_raw n r = (Inr b, r\<lparr>pending := rest, reads := reads r @ [(n, ignored r)]\<rparr>)"
  using assms by (simp add: read_raw_def)

lemma drain_full_then_short:
  assumes "session r \<noteq> None" and "pending r = bs @ b # rest"
    and "\<forall>x\<in>set bs. length x = 256" and "length b < 256"
  shows "drain acc r =
           (Inr (concat acc @ concat bs @ b),
            r\<lparr>pending := rest,
               reads := reads r @ replicate (Suc (length bs)) (256, ignored r)\<rparr>)"
  using assms
proof (induction bs arbitrary: acc r)
  case Nil
  then have "read_raw RECV_BUFFER_SIZE r =
      (Inr b, r\<lparr>pending := rest, reads := reads r @ [(256, ignored r)]\<rparr>)"
    by (simp add: read_raw_full RECV_BUFFER_SIZE_def)
  with Nil show ?case
    by (simp add: drain.simps [of acc r] RECV_BUFFER_SIZE_def)
next
  case (Cons x xs)
  let ?r1 = "r\<lparr>pending := xs @ b # rest, reads := reads r @ [(256, ignored r)]\<rparr>"
  from Cons.prems have rd: "read_raw RECV_BUFFER_SIZE r = (Inr x, ?r1)"
    by (simp add: read_raw_full RECV_BUFFER_SIZE_def)
  have "drain (acc @ [x]) ?r1 =
          (Inr (concat (acc @ [x]) @ concat xs @ b),
           ?r1\<lparr>pending := rest,
               reads := reads ?r1 @ replicate (Suc (length xs)) (256, ignored ?r1)\<rparr>)"
    using Cons.prems by (intro Cons.IH) simp_all
  with rd Cons.prems show ?case
    by (simp add: drain.simps [of acc r] RECV_BUFFER_SIZE_def replicate_append_same)
qed

text \<open>
  Claim C5.  Take a driver that inherits \<open>raw_recv\<close> from \<open>MessageVisaDriver\<close>, and let
  its session be open and deliver, one per read, the buffers \<open>bs\<close>, each of exactly 256
  bytes, and then a buffer \<open>b\<close> of fewer than 256 bytes.  Then \<open>raw_recv\<close> with a size
  of \<open>None\<close>, \<open>0\<close> or \<open>-1\<close> returns the concatenation of all of them in order, after
  exactly \<open>length bs + 1\<close> reads of 256 bytes each, and leaves the bursts behind \<open>b\<close>
  untouched.  Buffers of 256, 256 and 100 bytes give 612 bytes after three reads; a
  first buffer of 10 bytes is returned after one read.
\<close>

theorem raw_recv_drain:
  assumes "variant d = GPIB \<or> variant d = TCP"
    and "resource d = Some r" and "session r \<noteq> None"
    and "pending r = bs @ b # rest"
    and "\<forall>x\<in>set bs. length x = 256" and "length b < 256"
    and "sz = None \<or> sz = Some 0 \<or> sz = Some (- 1)"
  shows "self_raw_recv sz d =
           (Inr (concat bs @ b),
            d\<lparr>resource := Some (r\<lparr>pending := rest,
                 reads := reads r @ replicate (Suc (length bs)) (256, ignored r)\<rparr>)\<rparr>)"
  using assms(2,7) drain_full_then_short [OF assms(3-6), of "[]"]
  by (auto simp: self_raw_recv_inherited [OF assms(1)] raw_recv_def)

theorem raw_recv_drain_witness:
  "variant (scope [replicate 256 (CHR ''a''), replicate 256 (CHR ''b''),
      replicate 100 (CHR ''c'')]) = GPIB
    \<and> length (replicate 256 (CHR ''a'')) = 256 \<and> length (replicate 256 (CHR ''b'')) = 256
   \<and> length (replicate 100 (CHR ''c'')) < 256
   \<and> fst (self_raw_recv None (scope [replicate 256 (CHR ''a''), replicate 256 (CHR ''b''),
                                  replicate 100 (CHR ''c'')])) =
       Inr (replicate 256 (CHR ''a'') @ replicate 256 (CHR ''b'') @ replicate 100 (CHR ''c''))
   \<and> length (replicate 256 (CHR ''a'') @ replicate 256 (CHR ''b'') @ replicate 100 (CHR ''c'')) = 612
   \<and> map_option (length \<circ> reads)
        (resource (snd (self_raw_recv None (scope [replicate 256 (CHR ''a''),
           replicate 256 (CHR ''b''), replicate 100 (CHR ''c'')])))) = Some 3
   \<and> fst (self_raw_recv (Some (- 1)) (scope [''0123456789''])) = Inr ''0123456789''
   \<and> map_option (length \<circ> reads)
        (resource (snd (self_raw_recv (Some (- 1)) (scope [''0123456789''])))) = Some 1"
proof -
  let ?a = "replicate 256 (CHR ''a'')" and ?b = "replicate 256 (CHR ''b'')"
  let ?c = "replicate 100 (CHR ''c'')"
  have open3: "session (new_session 1 [?a, ?b, ?c]) \<noteq> None"
    and pend3: "pending (new_session 1 [?a, ?b, ?c]) = [?a, ?b] @ ?c # []"
    and full3: "\<forall>x\<in>set [?a, ?b]. length x = 256" and short3: "length ?c < 256"
    by (simp_all add: new_session_def)
  have open1: "session (new_session 1 [''0123456789'']) \<noteq> None"
    and pend1: "pending (new_session 1 [''0123456789'']) = [] @ ''0123456789'' # []"
    and full1: "\<forall>x\<in>set ([] :: string list). length x = 256"
    and short1: "length ''0123456789'' < 256"
    by (simp_all add: new_session_def)
  have v: "variant (scope bursts) = GPIB \<or> variant (scope bursts) = TCP" for bursts
    by (simp add: scope_variant)
  show ?thesis
    using raw_recv_drain [OF v scope_resource open3 pend3 full3 short3, of None]
      raw_recv_drain [OF v scope_resource open1 pend1 full1 short1, of "Some (- 1)"]
    by (simp add: new_session_def scope_variant)
qed

section \<open>The life cycle of a driver\<close>

lemma fold_set_visa_attribute:
  "fold (\<lambda>(key, v). set_visa_attribute key v) attrs r =
     r\<lparr>attribute_writes := attribute_writes r @ attrs\<rparr>"
  by (induction attrs arbitrary: r) (auto simp: set_visa_attribute_def)

lemma initialize_fresh:
  assumes "resource d = None" and "initialize d = (Inr (), d1)"
  shows "\<exists>bursts. map_of (instruments (resource_manager d)) (resource_name d) = Some bursts
     \<and> d1 = d\<lparr>log := log d @ [LogOpening (resource_name d),
                   LogSession (resource_name d) (Some (Suc (length (opened (resource_manager d)))))],
              resource_manager := (resource_manager d)\<lparr>opened := opened (resource_manager d) @ [resource_name d]\<rparr>,
              resource := Some ((new_session (Suc (length (opened (resource_manager d)))) bursts)
                                \<lparr>attribute_writes := init_attributes d\<rparr>)\<rparr>"
  using assms
  by (auto simp: initialize_def is_open_def open_resource_def Let_def fold_set_visa_attribute
      new_session_def split: option.splits)

text \<open>
  Claim C9.  A driver as its constructor leaves it (whatever \<open>_init_attributes\<close> a
  subclass constructor stored) is not open.  If \<open>initialize\<close> succeeds, the driver is
  open, the manager has opened the resource once, and the session has received exactly
  the stored attributes; \<open>finalize\<close> then succeeds and leaves the driver not open.  A
  second \<open>initialize\<close> right after the first changes nothing but the log, where it
  records that the resource is already open: no second open, no attribute written.
\<close>

theorem driver_lifecycle:
  assumes "d0 = (MessageVisaDriver_init lib cls name args kwargs)\<lparr>init_attributes := attrs\<rparr>"
    and "initialize d0 = (Inr (), d1)"
  shows "\<not> is_open d0 \<and> is_open d1
       \<and> (\<exists>d2. finalize d1 = (Inr (), d2) \<and> \<not> is_open d2)
       \<and> opened (resource_manager d1) = opened lib @ [name]
       \<and> (\<exists>r. resource d1 = Some r \<and> attribute_writes r = attrs)
       \<and> initialize d1 = (Inr (), d1\<lparr>log := log d1 @ [LogAlreadyOpen name]\<rparr>)
       \<and> opened (resource_manager (snd (initialize d1))) = opened lib @ [name]"
proof -
  have fresh: "resource d0 = None" and nm: "resource_name d0 = name"
    and op: "opened (resource_manager d0) = opened lib" and at: "init_attributes d0 = attrs"
    using assms(1) by (simp_all add: MessageVisaDriver_init_def ResourceManager_def)
  from initialize_fresh [OF fresh assms(2)] obtain bursts where
    d1: "d1 = d0\<lparr>log := log d0 @ [LogOpening name, LogSession name (Some (Suc (length (opened lib))))],
              resource_manager := (resource_manager d0)\<lparr>opened := opened lib @ [name]\<rparr>,
              resource := Some ((new_session (Suc (length (opened lib))) bursts)
                                \<lparr>attribute_writes := attrs\<rparr>)\<rparr>"
    by (auto simp: nm op at)
  have 1: "\<not> is_open d0" using fresh by (simp add: is_open_def)
  have 2: "is_open d1" by (simp add: d1 is_open_def new_session_def)
  have 3: "\<exists>d2. finalize d1 = (Inr (), d2) \<and> \<not> is_open d2"
    by (simp add: d1 finalize_def close_def is_open_def new_session_def Let_def)
  have 4: "opened (resource_manager d1) = opened lib @ [name]" by (simp add: d1)
  have 5: "\<exists>r. resource d1 = Some r \<and> attribute_writes r = attrs" by (simp add: d1)
  have 6: "initialize d1 = (Inr (), d1\<lparr>log := log d1 @ [LogAlreadyOpen name]\<rparr>)"
    using 2 by (simp add: initialize_def) (simp add: d1 nm)
  have 7: "opened (resource_manager (snd (initialize d1))) = opened lib @ [name]"
    by (simp add: 6 4)
  from 1 2 3 4 5 6 7 show ?thesis by blast
qed


theorem driver_lifecycle_witness:
  "\<not> is_open (GPIBVisaDriver (bench []) ''scope'' [] [])
   \<and> fst (initialize (GPIBVisaDriver (bench []) ''scope'' [] [])) = Inr ()
   \<and> is_open (scope [])
   \<and> fst (finalize (scope [])) = Inr ()
   \<and> \<not> is_open (snd (finalize (scope [])))
   \<and> opened (resource_manager (scope [])) = [''scope'']
   \<and> fst (initialize (scope [])) = Inr ()
   \<and> opened (resource_manager (snd (initialize (scope [])))) = [''scope'']
   \<and> resource (snd (initialize (scope []))) = resource (scope [])"
proof -
  have d0: "GPIBVisaDriver (bench []) ''scope'' [] [] =
      (MessageVisaDriver_init (bench []) GPIB ''scope'' [] [])\<lparr>init_attributes := []\<rparr>"
    by (simp add: GPIBVisaDriver_def MessageVisaDriver_init_def)
  have ok: "fst (initialize (GPIBVisaDriver (bench []) ''scope'' [] [])) = Inr ()"
    by (simp add: initialize_def is_open_def GPIBVisaDriver_def MessageVisaDriver_init_def
        open_resource_def bench_def ResourceManager_def Let_def)
  then have run: "initialize (GPIBVisaDriver (bench []) ''scope'' [] []) = (Inr (), scope [])"
    by (simp add: scope_def prod_eq_iff)
  show ?thesis
    using ok driver_lifecycle [OF d0 run] by (auto simp: bench_def)
qed

section \<open>Dispatch\<close>

lemma resource_info_ResourceManager:
  "resource_info (ResourceManager lib path) rname =
     (case map_of (canonical lib) rname of None \<Rightarrow> Inl VisaIOError | Some full \<Rightarrow> Inr full)"
  by (simp add: resource_info_def ResourceManager_def)

lemma MessageVisaDriver_init_fields:
  "variant (MessageVisaDriver_init lib cls name args kwargs) = cls"
  "ctor_args (MessageVisaDriver_init lib cls name args kwargs) = args"
  "ctor_kwargs (MessageVisaDriver_init lib cls name args kwargs) = kwargs"
  "resource_name (MessageVisaDriver_init lib cls name args kwargs) = name"
  by (simp_all add: MessageVisaDriver_init_def)

lemma SerialVisaDriver_patched:
  "\<exists>attrs. SerialVisaDriver (patched_module C) lib name args kwargs =
     Inr ((MessageVisaDriver_init lib Serial name args kwargs)\<lparr>init_attributes := attrs\<rparr>)"
  by (simp add: SerialVisaDriver_def SerialVisaDriver_init_def SerialVisaDriver_class_def
      patched_module_def global_name_def documented_tables_def getitem_def kwargs_get_def
      py_eq_def termination_attributes_def Let_def) blast

lemma SerialVisaDriver_shipped:
  "SerialVisaDriver shipped_module lib name args kwargs = Inl (NameError ''BYTESIZE'')"
  by (simp add: SerialVisaDriver_def SerialVisaDriver_init_def shipped_module_def
      global_name_def Let_def)

text \<open>
  What \<open>VisaDriver.__new__\<close> does on each canonical name, whatever the module's
  namespace: the GPIB, TCP and USB drivers are built from the resource name and the
  very arguments given, an unknown name raises \<open>ValueError\<close>, and a name that starts
  with \<open>ASRL\<close> hands the same arguments to the serial constructor.  With the four
  names bound the serial constructor returns a serial driver.
\<close>

lemma VisaDriver_new_branches:
  assumes "map_of (canonical lib) rname = Some name"
  shows "(prefix ''GPIB'' name \<longrightarrow>
            (\<exists>d. VisaDriver_new G lib rname args kwargs = Inr d
               \<and> variant d = GPIB \<and> resource_name d = rname
               \<and> ctor_args d = args \<and> ctor_kwargs d = kwargs))
       \<and> (prefix ''ASRL'' name \<longrightarrow>
            VisaDriver_new G lib rname args kwargs = SerialVisaDriver G lib rname args kwargs)
       \<and> (prefix ''TCPIP'' name \<longrightarrow>
            (\<exists>d. VisaDriver_new G lib rname args kwargs = Inr d
               \<and> variant d = TCP \<and> resource_name d = rname
               \<and> ctor_args d = args \<and> ctor_kwargs d = kwargs))
       \<and> (prefix ''USB'' name \<longrightarrow>
            (\<exists>d. VisaDriver_new G lib rname args kwargs = Inr d
               \<and> variant d = USB \<and> resource_name d = rname
               \<and> ctor_args d = args \<and> ctor_kwargs d = kwargs))
       \<and> (\<not> prefix ''GPIB'' name \<and> \<not> prefix ''ASRL'' name \<and> \<not> prefix ''TCPIP'' name
            \<and> \<not> prefix ''USB'' name \<longrightarrow>
            VisaDriver_new G lib rname args kwargs = Inl (ValueError_unknown_resource name))"
proof -
  have excl: "prefix ''ASRL'' name \<Longrightarrow> \<not> prefix ''GPIB'' name"
    "prefix ''TCPIP'' name \<Longrightarrow> \<not> prefix ''GPIB'' name \<and> \<not> prefix ''ASRL'' name"
    "prefix ''USB'' name \<Longrightarrow> \<not> prefix ''GPIB'' name \<and> \<not> prefix ''ASRL'' name
       \<and> \<not> prefix ''TCPIP'' name"
    by (auto simp: prefix_def)
  show ?thesis
    using assms excl
    by (auto simp: VisaDriver_new_def resource_info_ResourceManager GPIBVisaDriver_def
        TCPVisaDriver_def USBVisaDriver_def MessageVisaDriver_init_fields Let_def)
qed

lemma VisaDriver_new_serial_patched:
  assumes "map_of (canonical lib) rname = Some name" and "prefix ''ASRL'' name"
  shows "\<exists>d. VisaDriver_new (patched_module C) lib rname args kwargs = Inr d
               \<and> variant d = Serial \<and> resource_name d = rname
               \<and> ctor_args d = args \<and> ctor_kwargs d = kwargs"
proof -
  obtain attrs where "SerialVisaDriver (patched_module C) lib rname args kwargs =
     Inr ((MessageVisaDriver_init lib Serial rname args kwargs)\<lparr>init_attributes := attrs\<rparr>)"
    using SerialVisaDriver_patched by blast
  then show ?thesis
    using VisaDriver_new_branches [OF assms(1), of "patched_module C" args kwargs] assms(2)
    by (simp add: MessageVisaDriver_init_fields)
qed

text \<open>
  Claim C1, evaluated on the module as it is loaded.  The resource \<open>COM1\<close> resolves to
  the canonical name \<open>ASRL1::INSTR\<close>, which starts with \<open>ASRL\<close>; the dispatcher calls
  the serial constructor, and the constructor stops at its first table lookup, where
  the name \<open>BYTESIZE\<close> is not bound.  \<open>VisaDriver.__new__\<close> raises \<open>NameError\<close> and
  returns no serial driver.
\<close>

theorem VisaDriver_new_serial_NameError:
  "map_of (canonical (bench [])) ''COM1'' = Some ''ASRL1::INSTR''
   \<and> prefix ''ASRL'' ''ASRL1::INSTR''
   \<and> VisaDriver_new shipped_module (bench []) ''COM1'' [] [] = Inl (NameError ''BYTESIZE'')"
  by (simp add: VisaDriver_new_def resource_info_ResourceManager SerialVisaDriver_shipped
      bench_def Let_def)

section \<open>The serial configuration\<close>

text \<open>
  With the four names bound as the string literal writes them, the constructor of
  \<open>SerialVisaDriver\<close> itself never fails, whatever keyword arguments it is given: the
  baud rate is the caller's \<open>baudrate\<close> or 9600, and data bits, parity and stop bits
  are the encodings of the class attributes 8, \<open>'none'\<close> and 1.
\<close>

lemma SerialVisaDriver_line_parameters:
  "\<exists>d. SerialVisaDriver (patched_module C) lib name args kwargs = Inr d
      \<and> map_of (init_attributes d) ''ASRL_BAUD'' = Some (kwargs_get kwargs ''baudrate'' (PyInt 9600))
      \<and> map_of (init_attributes d) ''ASRL_DATA_BITS'' = Some (PyInt 8)
      \<and> map_of (init_attributes d) ''ASRL_PARITY'' = Some (PyInt (ASRL_PAR_NONE C))
      \<and> map_of (init_attributes d) ''ASRL_STOP_BITS'' = Some (PyInt (ASRL_STOP_ONE C))"
proof -
  have k: "kwargs_get [(''ASRL_BAUD'', b)] ''bytesize'' v = v"
    "kwargs_get [(''ASRL_BAUD'', b), (''ASRL_DATA_BITS'', x)] ''parity'' v = v"
    "kwargs_get [(''ASRL_BAUD'', b), (''ASRL_DATA_BITS'', x), (''ASRL_PARITY'', y)] ''stopbits'' v = v"
    for b x y v
    by (simp_all add: kwargs_get_def)
  show ?thesis
    by (simp add: SerialVisaDriver_def SerialVisaDriver_init_def SerialVisaDriver_class_def
      patched_module_def global_name_def documented_tables_def getitem_def py_eq_def
      termination_attributes_def k MessageVisaDriver_init_def Let_def)
qed

text \<open>
  Claim C6, evaluated.  On the module as it is loaded, construction with \<open>bytesize=9\<close>
  and construction with the valid \<open>bytesize=7\<close> both stop on the unbound name
  \<open>BYTESIZE\<close>, before any value is looked at.  With the four names bound: the table of
  data-bit counts has no entry for 9, so looking 9 up would raise \<open>KeyError\<close>; yet
  construction with \<open>bytesize=9\<close> succeeds, with the data bits of the class attribute
  (8); \<open>bytesize=7\<close> also yields 8; and \<open>parity='foo'\<close> succeeds with the encoding of
  \<open>'none'\<close>.  The three lookups take their key from the dictionary \<open>kw\<close> under
  construction, which never holds the caller's keys, not from \<open>kwargs\<close> as the baud
  rate does.
\<close>

theorem SerialVisaDriver_bytesize_ignored:
  "getitem (BYTESIZE_table (documented_tables visa_constants)) (PyInt 9) = Inl KeyError
   \<and> (\<exists>d. SerialVisaDriver (patched_module visa_constants) (bench [])
              ''COM1'' [] [(''bytesize'', PyInt 9)] = Inr d
          \<and> map_of (init_attributes d) ''ASRL_DATA_BITS'' = Some (PyInt 8))
   \<and> (\<exists>d. SerialVisaDriver (patched_module visa_constants) (bench [])
              ''COM1'' [] [(''bytesize'', PyInt 7)] = Inr d
          \<and> map_of (init_attributes d) ''ASRL_DATA_BITS'' = Some (PyInt 8))
   \<and> (\<exists>d. SerialVisaDriver (patched_module visa_constants) (bench [])
              ''COM1'' [] [(''parity'', PyStr ''foo'')] = Inr d
          \<and> map_of (init_attributes d) ''ASRL_PARITY'' = Some (PyInt 0))
   \<and> SerialVisaDriver shipped_module (bench []) ''COM1'' [] [(''bytesize'', PyInt 9)]
        = Inl (NameError ''BYTESIZE'')
   \<and> SerialVisaDriver shipped_module (bench []) ''COM1'' [] [(''bytesize'', PyInt 7)]
        = Inl (NameError ''BYTESIZE'')"
  by (simp add: SerialVisaDriver_def SerialVisaDriver_init_def SerialVisaDriver_class_def
      patched_module_def shipped_module_def global_name_def
      documented_tables_def getitem_def kwargs_get_def py_eq_def termination_attributes_def
      MessageVisaDriver_init_def flow_control_def visa_constants_def Let_def)




section \<open>read_block: the reads it issues\<close>

lemma logged_trans:
  "logged r cs r1 \<Longrightarrow> logged r1 cs' r2 \<Longrightarrow> logged r (cs @ cs') r2"
  by (simp add: logged_def)

lemma read_raw_logged:
  "read_raw n r = (res, r') \<Longrightarrow>
     (\<exists>e. res = Inl e \<and> r' = r \<and> session r = None) \<or>
     (\<exists>x. res = Inr x \<and> logged r [n] r' \<and> session r \<noteq> None)"
  by (auto simp: read_raw_def logged_def split: if_splits prod.splits)

lemma drain_logged:
  "drain acc r = (res, r') \<Longrightarrow>
     (\<exists>e. res = Inl e \<and> r' = r \<and> session r = None) \<or>
     (\<exists>x cs. res = Inr x \<and> cs \<noteq> [] \<and> logged r cs r' \<and> session r \<noteq> None)"
proof (induction acc r arbitrary: res r' rule: drain.induct)
  case (1 buffers r)
  obtain res1 r1 where rd: "read_raw RECV_BUFFER_SIZE r = (res1, r1)"
    by (cases "read_raw RECV_BUFFER_SIZE r")
  from read_raw_logged [OF rd] show ?case
  proof (elim disjE exE conjE)
    fix e assume "res1 = Inl e" "r1 = r" "session r = None"
    with rd "1.prems" show ?thesis by (auto simp: drain.simps [of buffers r])
  next
    fix x assume x: "res1 = Inr x" and lg: "logged r [RECV_BUFFER_SIZE] r1" and op: "session r \<noteq> None"
    show ?thesis
    proof (cases "int (length x) < RECV_BUFFER_SIZE")
      case True
      with rd x "1.prems" lg op show ?thesis
        by (auto simp: drain.simps [of buffers r])
    next
      case False
      with rd x "1.prems" have rec: "drain (buffers @ [x]) r1 = (res, r')"
        by (simp add: drain.simps [of buffers r])
      have s1: "session r1 \<noteq> None" using lg op by (simp add: logged_def)
      from "1.IH" [OF rd [symmetric] x False rec] s1
      obtain y cs where "res = Inr y" "cs \<noteq> []" "logged r1 cs r'" by auto
      with lg op show ?thesis
        using logged_trans [of r "[RECV_BUFFER_SIZE]" r1 cs r'] by auto
    qed
  qed
qed

lemma raw_recv_logged:
  assumes "raw_recv sz d = (res, d')"
  shows "(\<exists>e. res = Inl e \<and> d' = d) \<or>
     (\<exists>x r r' cs. res = Inr x \<and> resource d = Some r \<and> d' = d\<lparr>resource := Some r'\<rparr>
        \<and> cs \<noteq> [] \<and> logged r cs r' \<and> session r \<noteq> None)"
proof (cases "resource d")
  case None
  with assms show ?thesis by (auto simp: raw_recv_def)
next
  case (Some r)
  show ?thesis
  proof (cases "sz = None \<or> sz = Some 0 \<or> sz = Some (- 1)")
    case True
    obtain res1 r1 where dr: "drain [] r = (res1, r1)" by (cases "drain [] r")
    with True Some assms have "res = res1" "d' = d\<lparr>resource := Some r1\<rparr>"
      by (auto simp: raw_recv_def)
    with drain_logged [OF dr] Some show ?thesis by auto
  next
    case False
    then obtain n where n: "sz = Some n" "n \<noteq> 0" "n \<noteq> - 1" by (cases sz) auto
    obtain res1 r1 where rd: "read_raw n r = (res1, r1)" by (cases "read_raw n r")
    with n Some assms have "res = res1" "d' = d\<lparr>resource := Some r1\<rparr>"
      by (auto simp: raw_recv_def)
    with read_raw_logged [OF rd] Some show ?thesis by auto
  qed
qed

lemma USBVisaDriver_raw_recv_logged:
  assumes "USBVisaDriver_raw_recv sz d = (res, d')"
  shows "(\<exists>e. res = Inl e \<and> d' = d) \<or>
     (\<exists>x r r' cs. res = Inr x \<and> resource d = Some r \<and> d' = d\<lparr>resource := Some r'\<rparr>
        \<and> cs \<noteq> [] \<and> logged r cs r' \<and> session r \<noteq> None)"
proof (cases "resource d")
  case None
  with assms show ?thesis by (auto simp: USBVisaDriver_raw_recv_def)
next
  case (Some r)
  obtain res1 r1 where rd: "read_raw 1 r = (res1, r1)" by (cases "read_raw 1 r")
  with Some assms have "res = res1" "d' = d\<lparr>resource := Some r1\<rparr>"
    by (auto simp: USBVisaDriver_raw_recv_def)
  with read_raw_logged [OF rd] Some show ?thesis by auto
qed

lemma self_raw_recv_logged:
  assumes "variant d \<noteq> Serial" and "self_raw_recv sz d = (res, d')"
  shows "(\<exists>e. res = Inl e \<and> d' = d) \<or>
     (\<exists>x r r' cs. res = Inr x \<and> resource d = Some r \<and> d' = d\<lparr>resource := Some r'\<rparr>
        \<and> cs \<noteq> [] \<and> logged r cs r' \<and> session r \<noteq> None)"
proof (cases "variant d")
  case USB
  with assms(2) have "USBVisaDriver_raw_recv sz d = (res, d')"
    by (simp add: self_raw_recv_def)
  then show ?thesis by (rule USBVisaDriver_raw_recv_logged)
next
  case GPIB
  with assms(2) have "raw_recv sz d = (res, d')" by (simp add: self_raw_recv_def)
  then show ?thesis by (rule raw_recv_logged)
next
  case TCP
  with assms(2) have "raw_recv sz d = (res, d')" by (simp add: self_raw_recv_def)
  then show ?thesis by (rule raw_recv_logged)
next
  case Serial
  with assms(1) show ?thesis by simp
qed

lemma logged_refl: "logged r [] r"
  by (simp add: logged_def)

lemma self_raw_recv_step:
  assumes "variant d \<noteq> Serial" and "resource d = Some r" and "logged r0 cs0 r"
    and "self_raw_recv sz d = (res, d')"
  shows "\<exists>r' cs. resource d' = Some r' \<and> variant d' = variant d \<and> logged r0 (cs0 @ cs) r'
           \<and> (isl res \<or> (cs \<noteq> [] \<and> session r0 \<noteq> None))"
  using self_raw_recv_logged [OF assms(1,4)]
proof (elim disjE exE conjE)
  fix e assume "res = Inl e" "d' = d"
  with assms(2,3) show ?thesis by (intro exI [of _ r] exI [of _ "[]"]) simp
next
  fix x r1 r' cs
  assume "res = Inr x" "resource d = Some r1" "d' = d\<lparr>resource := Some r'\<rparr>"
    "cs \<noteq> []" "logged r1 cs r'" "session r1 \<noteq> None"
  with assms(2,3) show ?thesis
    by (intro exI [of _ r'] exI [of _ cs]) (auto simp: logged_def)
qed

lemma read_block_length_logged:
  assumes "variant d \<noteq> Serial" and "resource d = Some r"
    and "read_block_length d = (res, d')"
  shows "\<exists>r' cs. resource d' = Some r' \<and> variant d' = variant d \<and> logged r cs r'
           \<and> (isl res \<or> (3 \<le> length cs \<and> session r \<noteq> None))"
proof -
  obtain res1 d1 where s1: "self_raw_recv (Some 1) d = (res1, d1)"
    by (cases "self_raw_recv (Some 1) d")
  from self_raw_recv_step [OF assms(1,2) logged_refl s1] obtain r1 cs1 where
    1: "resource d1 = Some r1" "logged r cs1 r1" "isl res1 \<or> (cs1 \<noteq> [] \<and> session r \<noteq> None)"
    and v1: "variant d1 = variant d"
    by auto
  have n1: "variant d1 \<noteq> Serial" using v1 assms(1) by simp
  show ?thesis
  proof (cases "res1 = Inr ''#''")
    case False
    with s1 assms(3) have "isl res" "d' = d1"
      by (auto simp: read_block_length_def split: sum.splits list.splits if_splits)
    with 1 v1 show ?thesis by blast
  next
    case True
    obtain res2 d2 where s2: "self_raw_recv (Some 1) d1 = (res2, d2)"
      by (cases "self_raw_recv (Some 1) d1")
    from self_raw_recv_step [OF n1 1(1,2) s2] obtain r2 cs2 where
      2: "resource d2 = Some r2" "logged r (cs1 @ cs2) r2"
         "isl res2 \<or> (cs2 \<noteq> [] \<and> session r \<noteq> None)"
      and v2: "variant d2 = variant d"
      using v1 by auto
    have n2: "variant d2 \<noteq> Serial" using v2 assms(1) by simp
    show ?thesis
    proof (cases "\<exists>digit nlength. res2 = Inr digit \<and> py_int digit = Some nlength")
      case False
      with s1 s2 True assms(3) have "isl res" "d' = d2"
        by (auto simp: read_block_length_def split: sum.splits option.splits)
      with 2 v2 show ?thesis by blast
    next
      case True2: True
      then obtain digit nlength where dg: "res2 = Inr digit" "py_int digit = Some nlength"
        by blast
      obtain res3 d3 where s3: "self_raw_recv (Some nlength) d2 = (res3, d3)"
        by (cases "self_raw_recv (Some nlength) d2")
      from self_raw_recv_step [OF n2 2(1,2) s3] obtain r3 cs3 where
        3: "resource d3 = Some r3" "logged r ((cs1 @ cs2) @ cs3) r3"
           "isl res3 \<or> (cs3 \<noteq> [] \<and> session r \<noteq> None)"
        and v3: "variant d3 = variant d"
        using v2 by auto
      from s1 s2 s3 True dg assms(3) have d': "d' = d3"
        and res: "isl res \<or> (\<not> isl res1 \<and> \<not> isl res2 \<and> \<not> isl res3)"
        by (auto simp: read_block_length_def split: sum.splits option.splits)
      from res show ?thesis
      proof
        assume "isl res" with 3 v3 d' show ?thesis by blast
      next
        assume "\<not> isl res1 \<and> \<not> isl res2 \<and> \<not> isl res3"
        with 1 2 3 have "cs1 \<noteq> []" "cs2 \<noteq> []" "cs3 \<noteq> []" "session r \<noteq> None" by auto
        then have "3 \<le> length ((cs1 @ cs2) @ cs3)"
          by (cases cs1; cases cs2; cases cs3) auto
        with 3 v3 d' \<open>session r \<noteq> None\<close> show ?thesis by blast
      qed
    qed
  qed
qed

lemma read_block_body_logged:
  assumes "variant d \<noteq> Serial" and "resource d = Some r"
    and "read_block_body d = (res, d')"
  shows "\<exists>r' cs. resource d' = Some r' \<and> logged r cs r'
           \<and> (isl res \<or> 4 \<le> length cs)"
proof -
  obtain res1 d1 where s1: "read_block_length d = (res1, d1)"
    by (cases "read_block_length d")
  from read_block_length_logged [OF assms(1,2) s1] obtain r1 cs1 where
    1: "resource d1 = Some r1" "logged r cs1 r1"
       "isl res1 \<or> (3 \<le> length cs1 \<and> session r \<noteq> None)"
    and v1: "variant d1 = variant d"
    by auto
  have n1: "variant d1 \<noteq> Serial" using v1 assms(1) by simp
  show ?thesis
  proof (cases res1)
    case (Inl e)
    with s1 assms(3) have "isl res" "d' = d1" by (auto simp: read_block_body_def)
    with 1 show ?thesis by blast
  next
    case (Inr len)
    with s1 assms(3) have s2: "self_raw_recv (Some len) d1 = (res, d')"
      by (simp add: read_block_body_def)
    from self_raw_recv_step [OF n1 1(1,2) s2] obtain r2 cs2 where
      2: "resource d' = Some r2" "logged r (cs1 @ cs2) r2"
         "isl res \<or> (cs2 \<noteq> [] \<and> session r \<noteq> None)"
      by auto
    from 1(3) Inr 2(3) have "isl res \<or> 4 \<le> length (cs1 @ cs2)"
      by (cases cs2) auto
    with 2 show ?thesis by blast
  qed
qed

text \<open>
  Claim C8 as amended.  The whole body of \<open>read_block\<close> runs inside
  \<open>ignore_warning(VI_SUCCESS_MAX_CNT)\<close>: every read the call issues, the payload read
  included, is made while that status is ignored.  A call that returns normally has
  issued at least four reads (header byte, digit count, length field, payload), and
  the status is no longer ignored once it has returned.  (A serial driver is left
  out: its \<open>raw_recv\<close> raises \<open>AttributeError\<close> before any read is made.)
\<close>

theorem read_block_ignores_max_cnt:
  assumes "variant d \<noteq> Serial" and "resource d = Some r"
  shows "\<exists>r' new. resource (snd (read_block d)) = Some r'
           \<and> reads r' = reads r @ new
           \<and> list_all (\<lambda>(count, ign). VI_SUCCESS_MAX_CNT \<in> set ign) new
           \<and> (isl (fst (read_block d))
                \<or> (4 \<le> length new \<and> VI_SUCCESS_MAX_CNT \<notin> set (ignored r')))"
proof -
  let ?d0 = "ignoring VI_SUCCESS_MAX_CNT d"
  let ?r0 = "ignore_warning_enter VI_SUCCESS_MAX_CNT r"
  have d0: "resource ?d0 = Some ?r0" and v0: "variant ?d0 \<noteq> Serial"
    using assms by (simp_all add: ignoring_def)
  obtain res d1 where body: "read_block_body ?d0 = (res, d1)"
    by (cases "read_block_body ?d0")
  from read_block_body_logged [OF v0 d0 body] obtain r1 cs where
    1: "resource d1 = Some r1" "logged ?r0 cs r1" "isl res \<or> 4 \<le> length cs"
    by auto
  have rb: "read_block d = (res, not_ignoring VI_SUCCESS_MAX_CNT d1)"
    using assms(2) body by (simp add: read_block_def)
  let ?r' = "ignore_warning_exit VI_SUCCESS_MAX_CNT r1"
  let ?new = "map (\<lambda>c. (c, ignored ?r0)) cs"
  have "resource (snd (read_block d)) = Some ?r'"
    using rb 1(1) by (simp add: not_ignoring_def)
  moreover have "reads ?r' = reads r @ ?new"
    using 1(2) by (simp add: logged_def ignore_warning_exit_def ignore_warning_enter_def)
  moreover have "list_all (\<lambda>(count, ign). VI_SUCCESS_MAX_CNT \<in> set ign) ?new"
    by (simp add: list_all_iff ignore_warning_enter_def)
  moreover have "VI_SUCCESS_MAX_CNT \<notin> set (ignored ?r')"
    by (simp add: ignore_warning_exit_def)
  then have "isl (fst (read_block d))
      \<or> (4 \<le> length ?new \<and> VI_SUCCESS_MAX_CNT \<notin> set (ignored ?r'))"
    using rb 1(3) by auto
  ultimately show ?thesis by blast
qed

theorem read_block_ignores_max_cnt_witness:
  "variant (scope [''#205hello'']) \<noteq> Serial
   \<and> resource (scope [''#205hello'']) = Some (new_session 1 [''#205hello''])
   \<and> (\<exists>r' new. resource (snd (read_block (scope [''#205hello'']))) = Some r'
          \<and> reads r' = new
          \<and> list_all (\<lambda>(count, ign). VI_SUCCESS_MAX_CNT \<in> set ign) new
          \<and> (isl (fst (read_block (scope [''#205hello''])))
               \<or> (4 \<le> length new \<and> VI_SUCCESS_MAX_CNT \<notin> set (ignored r'))))"
proof -
  have v: "variant (scope [''#205hello'']) \<noteq> Serial"
    by (simp add: scope_variant)
  show ?thesis
    using v scope_resource [of "[''#205hello'']"]
      read_block_ignores_max_cnt [OF v scope_resource]
    by (simp add: new_session_def)
qed

text \<open>
  Claim C8 fails on the code: on the block \<open>#205hello\<close> the fourth read, the payload
  read of 5 bytes, is made with \<open>VI_SUCCESS_MAX_CNT\<close> ignored, like the three before it.
\<close>

theorem read_block_payload_read_suppressed:
  "fst (read_block (scope [''#205hello''])) = Inr ''hello''
   \<and> map_option reads (resource (snd (read_block (scope [''#205hello'']))))
       = Some [(1, [VI_SUCCESS_MAX_CNT]), (1, [VI_SUCCESS_MAX_CNT]),
               (2, [VI_SUCCESS_MAX_CNT]), (5, [VI_SUCCESS_MAX_CNT])]"
  by code_simp


section \<open>read_block: the payload\<close>

lemma int_digits_all:
  "list_all is_digit ds \<Longrightarrow> ds \<noteq> [] \<or> after \<Longrightarrow>
     int_digits after acc ds = Some (foldl (\<lambda>a c. 10 * a + digit_val c) acc ds)"
  by (induction ds arbitrary: after acc) auto

lemma digit_not_space: "is_digit c \<Longrightarrow> \<not> is_space c"
  by (auto simp: is_digit_def is_space_def)

lemma digit_not_sign: "is_digit c \<Longrightarrow> c \<noteq> CHR ''+'' \<and> c \<noteq> CHR ''-''"
  by (auto simp: is_digit_def)

lemma dropWhile_digits:
  "list_all is_digit ds \<Longrightarrow> dropWhile is_space ds = ds"
  by (cases ds) (auto simp: digit_not_space)

lemma py_int_digits:
  assumes "list_all is_digit ds" and "ds \<noteq> []"
  shows "py_int ds = Some (decimal ds)"
proof -
  have "list_all is_digit (rev ds)" using assms(1) by (simp add: list_all_iff)
  then have strip: "rev (dropWhile is_space (rev (dropWhile is_space ds))) = ds"
    using assms(1) by (simp add: dropWhile_digits)
  obtain c cs where ds: "ds = c # cs" using assms(2) by (cases ds) auto
  then have "is_digit c" using assms(1) by simp
  then have sign: "c \<noteq> CHR ''+''" "c \<noteq> CHR ''-''" using digit_not_sign by auto
  have "py_int ds = int_digits False 0 ds"
    unfolding py_int_def strip using sign by (simp add: ds)
  then show ?thesis
    using int_digits_all [OF assms(1), of False 0] assms(2) by (simp add: decimal_def)
qed

lemma read_raw_prefix:
  assumes "session r \<noteq> None" and "pending r = (xs @ ys) # rest" and "n = int (length xs)"
  shows "read_raw n r =
           (Inr xs, r\<lparr>pending := (if ys = [] then rest else ys # rest),
                       reads := reads r @ [(n, ignored r)]\<rparr>)"
  using assms by (auto simp: read_raw_def)

text \<open>
  A block whose declared length is at least 1, delivered in one burst: \<open>#\<close>, a digit
  giving the number of digits of the length field, that many digits, and then at least
  as many bytes as they declare.  On a driver that inherits \<open>raw_recv\<close> from
  \<open>MessageVisaDriver\<close>, \<open>read_block\<close> returns exactly the declared number of bytes that
  follow the length field.
\<close>

lemma read_block_returns_payload:
  assumes "variant d = GPIB \<or> variant d = TCP"
    and "resource d = Some r" and "session r \<noteq> None"
    and "pending r = (CHR ''#'' # dg # digits @ payload @ extra) # rest"
    and "is_digit dg" and "digit_val dg = int (length digits)"
    and "digits \<noteq> []" and "list_all is_digit digits"
    and "decimal digits = int (length payload)" and "payload \<noteq> []"
  shows "fst (read_block d) = Inr payload"
proof -
  define r0 where "r0 = ignore_warning_enter VI_SUCCESS_MAX_CNT r"
  define d0 where "d0 = ignoring VI_SUCCESS_MAX_CNT d"
  define r1 where "r1 = r0\<lparr>pending := (dg # digits @ payload @ extra) # rest,
                    reads := reads r0 @ [(1, ignored r0)]\<rparr>"
  define r2 where "r2 = r1\<lparr>pending := (digits @ payload @ extra) # rest,
                    reads := reads r1 @ [(1, ignored r1)]\<rparr>"
  define n where "n = int (length digits)"
  define r3 where "r3 = r2\<lparr>pending := (payload @ extra) # rest,
                    reads := reads r2 @ [(n, ignored r2)]\<rparr>"
  define len where "len = int (length payload)"
  define d1 where "d1 = d0\<lparr>resource := Some r1\<rparr>"
  define d2 where "d2 = d1\<lparr>resource := Some r2\<rparr>"
  define d3 where "d3 = d2\<lparr>resource := Some r3\<rparr>"
  have res: "resource d0 = Some r0" "resource d1 = Some r1" "resource d2 = Some r2"
    "resource d3 = Some r3"
    using assms(2) by (simp_all add: d0_def d1_def d2_def d3_def r0_def ignoring_def)
  have "variant d0 = variant d" "variant d1 = variant d" "variant d2 = variant d"
    "variant d3 = variant d"
    by (simp_all add: d0_def d1_def d2_def d3_def ignoring_def)
  then have inh: "self_raw_recv sz d0 = raw_recv sz d0" "self_raw_recv sz d1 = raw_recv sz d1"
    "self_raw_recv sz d2 = raw_recv sz d2" "self_raw_recv sz d3 = raw_recv sz d3" for sz
    using assms(1) by (simp_all add: self_raw_recv_inherited)
  have op: "session r0 \<noteq> None" "session r1 \<noteq> None" "session r2 \<noteq> None"
    "session r3 \<noteq> None"
    using assms(3) by (simp_all add: r0_def r1_def r2_def r3_def ignore_warning_enter_def)
  have pend: "pending r0 = (''#'' @ dg # digits @ payload @ extra) # rest"
    "pending r1 = ([dg] @ digits @ payload @ extra) # rest"
    "pending r2 = (digits @ payload @ extra) # rest"
    "pending r3 = (payload @ extra) # rest"
    using assms(4) by (simp_all add: r0_def r1_def r2_def r3_def ignore_warning_enter_def)
  have npos: "n \<noteq> 0" "n \<noteq> - 1" and lpos: "len \<noteq> 0" "len \<noteq> - 1"
    using assms(7,10) by (auto simp: n_def len_def)
  have "read_raw 1 r0 = (Inr ''#'', r1)"
    using read_raw_prefix [OF op(1) pend(1), of 1] by (simp add: r1_def)
  then have s1: "raw_recv (Some 1) d0 = (Inr ''#'', d1)"
    using res(1) by (simp add: raw_recv_one d1_def)
  have "read_raw 1 r1 = (Inr [dg], r2)"
    using read_raw_prefix [OF op(2) pend(2), of 1] assms(7) by (simp add: r2_def)
  then have s2: "raw_recv (Some 1) d1 = (Inr [dg], d2)"
    using res(2) by (simp add: raw_recv_one d2_def)
  have pn: "py_int [dg] = Some n"
    using py_int_digits [of "[dg]"] assms(5,6) by (simp add: decimal_def n_def)
  have "read_raw n r2 = (Inr digits, r3)"
    using read_raw_prefix [OF op(3) pend(3), of n] assms(10) by (simp add: r3_def n_def)
  then have s3: "raw_recv (Some n) d2 = (Inr digits, d3)"
    using res(3) npos by (simp add: raw_recv_one d3_def)
  have pl: "py_int digits = Some len"
    using py_int_digits [OF assms(8,7)] assms(9) by (simp add: len_def)
  have hdr: "read_block_length d0 = (Inr len, d3)"
    by (simp add: read_block_length_def inh s1 s2 pn s3 pl)
  have "fst (read_raw len r3) = Inr payload"
    using read_raw_prefix [OF op(4) pend(4), of len] by (simp add: len_def)
  then have "fst (raw_recv (Some len) d3) = Inr payload"
    using res(4) lpos by (simp add: raw_recv_one)
  then have "fst (read_block_body d0) = Inr payload"
    by (simp add: read_block_body_def hdr inh)
  then show ?thesis
    using assms(2) by (auto simp: read_block_def d0_def split: prod.splits)
qed







text \<open>
  Claim C2, evaluated at a block of declared length 0.  On \<open>#10abc\<close> the length field
  decodes to 0, \<open>raw_recv(0)\<close> takes the drain branch, a read of 256 bytes is issued,
  and the call returns the three bytes behind the block instead of an empty payload.
\<close>

theorem read_block_zero_length_drains:
  "fst (read_block (scope [''#10abc''])) = Inr ''abc''
   \<and> fst (read_block_length (ignoring VI_SUCCESS_MAX_CNT (scope [''#10abc'']))) = Inr 0
   \<and> map_option (map fst \<circ> reads) (resource (snd (read_block (scope [''#10abc'']))))
       = Some [1, 1, 1, 256]"
  by code_simp

text \<open>
  The example of the specification: on \<open>#205\<close> followed by any five bytes,
  \<open>read_block\<close> returns those five bytes.
\<close>

lemma read_block_205:
  assumes "length payload = 5"
  shows "fst (read_block (scope [''#205'' @ payload])) = Inr payload"
proof -
  have "payload \<noteq> []" using assms by auto
  then show ?thesis
    using assms
      read_block_returns_payload [where d = "scope [''#205'' @ payload]"
        and r = "new_session 1 [''#205'' @ payload]" and dg = "CHR ''2''" and digits = "''05''"
        and payload = payload and extra = "[]" and rest = "[]"]
    by (simp add: scope_resource scope_variant new_session_def is_digit_def digit_val_def
        decimal_def)
qed

end
